theory Spec2Isabelle
  imports Complex_Main "HOL-Library.Sublist"
begin

section \<open>Data model: the student table\<close>

text \<open>
  The script \<^verbatim>\<open>chart_1_gpa_attendance.py\<close> reads one table of student records. A numeric
  cell is a 64-bit float; a missing cell is NaN. A float cell is modelled by the real
  number it denotes, \<open>None\<close> standing for NaN (infinities do not occur in the columns of
  this table). A text cell is a string, \<open>None\<close> when it is missing. The table is taken to
  have the six columns the script names.
\<close>

type_synonym float64 = "real option"

record row =
  STUDENT_ID :: "string option"
  PERIOD :: "string option"
  GPA :: float64
  ATTENDANCE :: float64
  NATIONALITY_STATUS :: "string option"
  SELF_STUDY_HRS :: float64

text \<open>The table after the derived column \<^verbatim>\<open>GPA_CATEGORY\<close> has been added.\<close>

record row_cat = row +
  GPA_CATEGORY :: "string option"

subsection \<open>\<^verbatim>\<open>DataFrame.dropna(subset=...)\<close>\<close>

text \<open>
  A column of the subset is given by the test "this row's cell in the column is missing".
  With the default \<^verbatim>\<open>how='any'\<close> a row is dropped as soon as one of the subset's cells is
  missing; the rows kept stay in their order and are not changed. The script assigns the
  filtered copy to \<^verbatim>\<open>df_chart1\<close> and then adds the derived column to it; \<open>df_filtered\<close>
  names the first of the two stages.
\<close>

definition isna :: "'a option \<Rightarrow> bool" where
  "isna c = (case c of None \<Rightarrow> True | Some _ \<Rightarrow> False)"

definition dropna :: "('r \<Rightarrow> bool) list \<Rightarrow> 'r list \<Rightarrow> 'r list" where
  "dropna cols df = filter (\<lambda>r. \<not> list_ex (\<lambda>col_isna. col_isna r) cols) df"

definition df_filtered :: "row list \<Rightarrow> row list" where
  "df_filtered df =
     dropna [\<lambda>r. isna (GPA r), \<lambda>r. isna (ATTENDANCE r), \<lambda>r. isna (NATIONALITY_STATUS r)] df"

subsection \<open>\<^verbatim>\<open>pandas.cut\<close>\<close>

text \<open>
  \<^verbatim>\<open>pd.cut(x, bins, labels)\<close> with the defaults \<^verbatim>\<open>right=True\<close> and
  \<^verbatim>\<open>include_lowest=False\<close>: the i-th bin is the interval open on the left and closed on
  the right between the i-th and the next edge; a value in no bin, and NaN, give NaN.
\<close>

fun pd_cut :: "real list \<Rightarrow> string list \<Rightarrow> float64 \<Rightarrow> string option" where
  "pd_cut (lo # hi # bins) (l # labels) (Some x) =
     (if lo < x \<and> x \<le> hi then Some l else pd_cut (hi # bins) labels (Some x))"
| "pd_cut _ _ _ = None"

definition gpa_bins :: "real list" where
  "gpa_bins = [0, 2.5, 3.5, 5.0]"

definition gpa_labels :: "string list" where
  "gpa_labels = [''At Risk (<2.5)'', ''Satisfactory (2.5-3.5)'', ''Excellent (>3.5)'']"

definition add_GPA_CATEGORY :: "row \<Rightarrow> row_cat" where
  "add_GPA_CATEGORY r = row.extend r (row_cat.fields (pd_cut gpa_bins gpa_labels (GPA r)))"

definition df_chart1 :: "row list \<Rightarrow> row_cat list" where
  "df_chart1 df = map add_GPA_CATEGORY (df_filtered df)"

subsection \<open>\<^verbatim>\<open>Series.value_counts\<close>\<close>

text \<open>
  The distinct non-missing values of a column with the number of rows holding each, the
  most frequent first (\<^verbatim>\<open>dropna=True\<close>, \<^verbatim>\<open>sort=True\<close>). Values are met in the order of
  their first row; the sort is by descending count. Nothing below relies on the order of
  two values with the same count.
\<close>

definition notna_values :: "'a option list \<Rightarrow> 'a list" where
  "notna_values col = concat (map (\<lambda>c. case c of None \<Rightarrow> [] | Some v \<Rightarrow> [v]) col)"

definition unique :: "'a list \<Rightarrow> 'a list" where
  "unique xs = rev (remdups (rev xs))"

definition value_counts :: "'a option list \<Rightarrow> ('a \<times> nat) list" where
  "value_counts col =
     (let vals = notna_values col
      in sort_key (\<lambda>(v, n). - int n) (map (\<lambda>v. (v, count_list vals v)) (unique vals)))"

subsection \<open>\<^verbatim>\<open>Series.corr\<close> (Pearson)\<close>

text \<open>
  \<^verbatim>\<open>a.corr(b)\<close> keeps the positions where both series are present. With no position left
  it returns NaN without calling anything. Otherwise it hands the two arrays to
  \<^verbatim>\<open>numpy.corrcoef\<close> and returns the entry for the pair.

  \<^verbatim>\<open>numpy.corrcoef\<close> computes in 64-bit floating point: its result depends on the rounding
  of every intermediate operation and on the order in which the library sums, and the
  script determines neither. It is therefore a parameter \<open>cc\<close> of the model: \<open>cc xs ys\<close>
  is the float that \<^verbatim>\<open>numpy.corrcoef(xs, ys)[0, 1]\<close> returns, NaN included. Everything
  proved below holds for every such function.
\<close>

type_synonym corrcoef = "real list \<Rightarrow> real list \<Rightarrow> float64"

definition valid_pairs :: "float64 list \<Rightarrow> float64 list \<Rightarrow> (real \<times> real) list" where
  "valid_pairs a b =
     concat (map (\<lambda>(x, y). case (x, y) of (Some u, Some v) \<Rightarrow> [(u, v)] | _ \<Rightarrow> []) (zip a b))"

definition corr :: "corrcoef \<Rightarrow> float64 list \<Rightarrow> float64 list \<Rightarrow> float64" where
  "corr cc a b =
     (let ps = valid_pairs a b
      in if length ps = 0 then None else cc (map fst ps) (map snd ps))"

definition correlation :: "corrcoef \<Rightarrow> row_cat list \<Rightarrow> float64" where
  "correlation cc d = corr cc (map GPA d) (map ATTENDANCE d)"

subsection \<open>Formatting numbers\<close>

text \<open>
  \<^verbatim>\<open>str(n)\<close> of a natural number, and the format \<^verbatim>\<open>:.3f\<close> of a float: NaN prints as
  \<^verbatim>\<open>nan\<close>; a number is rounded to three decimals, to the nearest and to the even
  neighbour on a tie, and a negative number keeps its sign.
\<close>

definition digit :: "nat \<Rightarrow> char" where
  "digit n = ''0123456789'' ! (n mod 10)"

function str_nat :: "nat \<Rightarrow> string" where
  "str_nat n = (if n < 10 then [digit n] else str_nat (n div 10) @ [digit n])"
  by pat_completeness auto
termination
  by (relation "measure id") auto

definition round_half_even :: "real \<Rightarrow> int" where
  "round_half_even x =
     (let f = \<lfloor>x\<rfloor>; d = x - of_int f
      in if d < 1 / 2 then f else if 1 / 2 < d then f + 1 else if even f then f else f + 1)"

definition format_3f :: "float64 \<Rightarrow> string" where
  "format_3f v =
     (case v of
        None \<Rightarrow> ''nan''
      | Some r \<Rightarrow>
          (let m = nat (round_half_even (\<bar>r\<bar> * 1000))
           in (if r < 0 then ''-'' else []) @ str_nat (m div 1000) @ ''.''
              @ [digit (m div 100), digit (m div 10), digit m]))"


section \<open>Errors\<close>

text \<open>
  The script handles no exception: the first one raised ends the run. The ones that the
  calls of the script raise are a file or directory that does not exist, a file that is
  not a table, and a value that the plotting library refuses.
\<close>

datatype error = FileNotFoundError string | ParserError string | ValueError string

section \<open>The chart\<close>

text \<open>
  The figure object of the plotting library, as far as the script sets it: the table
  handed to \<^verbatim>\<open>px.scatter\<close> with the encodings of its columns, and the layout that
  \<^verbatim>\<open>update_layout\<close>, \<^verbatim>\<open>update_xaxes\<close>, \<^verbatim>\<open>update_yaxes\<close> and \<^verbatim>\<open>add_annotation\<close> write.
  A layout attribute that has not been set is \<open>None\<close> (the library then chooses).
  The grid, legend, font and hover-label colours are cosmetic constants of the same kind
  as the two background colours kept here.
\<close>

record annotation =
  ann_text :: string
  ann_xref :: string
  ann_yref :: string
  ann_x :: real
  ann_y :: real
  ann_showarrow :: bool

record figure =
  fig_data :: "row_cat list"
  fig_x :: string
  fig_y :: string
  fig_color :: string
  fig_size :: string
  fig_hover_data :: "string list"
  fig_trendline :: string
  fig_title :: string
  fig_color_discrete_map :: "(string \<times> string) list"
  plot_bgcolor :: "string option"
  paper_bgcolor :: "string option"
  layout_height :: "nat option"
  layout_width :: "nat option"
  layout_margin :: "(nat \<times> nat \<times> nat \<times> nat) option"
  xaxis_range :: "(real \<times> real) option"
  yaxis_range :: "(real \<times> real) option"
  annotations :: "annotation list"

text \<open>
  \<^verbatim>\<open>px.scatter\<close> with \<^verbatim>\<open>size='SELF-STUDY HRS'\<close> sets the marker sizes of its traces to
  the cells of that column, and the library accepts a marker size only if it is a number
  that is at least 0: a missing cell (NaN) or a negative one makes the call raise
  \<^verbatim>\<open>ValueError\<close>. A table without rows has no marker to refuse.
\<close>

definition size_ok :: "float64 \<Rightarrow> bool" where
  "size_ok h = (case h of None \<Rightarrow> False | Some x \<Rightarrow> 0 \<le> x)"

definition scatter_figure :: "row_cat list \<Rightarrow> figure" where
  "scatter_figure d =
     \<lparr>fig_data = d,
      fig_x = ''ATTENDANCE'',
      fig_y = ''GPA'',
      fig_color = ''NATIONALITY_STATUS'',
      fig_size = ''SELF-STUDY HRS'',
      fig_hover_data = [''STUDENT ID'', ''PERIOD'', ''ATTENDANCE'', ''GPA'', ''SELF-STUDY HRS''],
      fig_trendline = ''ols'',
      fig_title = ''Student Performance: GPA vs Attendance by Nationality'',
      fig_color_discrete_map =
        [(''SG Citizen'', ''#00d4aa''), (''SG PR'', ''#ffd93d''), (''Foreigner'', ''#ff6b6b'')],
      plot_bgcolor = None,
      paper_bgcolor = None,
      layout_height = None,
      layout_width = None,
      layout_margin = None,
      xaxis_range = None,
      yaxis_range = None,
      annotations = []\<rparr>"

definition size_error :: error where
  "size_error =
     ValueError ''Invalid element(s) received for the 'size' property of scatter.marker''"

definition px_scatter :: "row_cat list \<Rightarrow> error + figure" where
  "px_scatter d =
     (if list_all (\<lambda>r. size_ok (SELF_STUDY_HRS r)) d then Inr (scatter_figure d)
      else Inl size_error)"

definition update_layout :: "figure \<Rightarrow> figure" where
  "update_layout fig =
     fig\<lparr>plot_bgcolor := Some ''#1e2130'',
         paper_bgcolor := Some ''#1e2130'',
         fig_title := ''<b>Student Performance: GPA vs Attendance</b><br><sub>Analysis by Nationality Status</sub>'',
         layout_height := Some 600,
         layout_width := Some 1000,
         layout_margin := Some (80, 80, 100, 80)\<rparr>"

definition update_xaxes :: "figure \<Rightarrow> figure" where
  "update_xaxes fig = fig\<lparr>xaxis_range := Some (45, 105)\<rparr>"

definition update_yaxes :: "figure \<Rightarrow> figure" where
  "update_yaxes fig = fig\<lparr>yaxis_range := Some (1.5, 4.2)\<rparr>"

text \<open>
  Python's \<^verbatim>\<open>abs(c) > 0.5\<close> on a float: every comparison with NaN is false.
\<close>

definition float_abs :: "float64 \<Rightarrow> float64" where
  "float_abs c = map_option abs c"

definition float_gt :: "float64 \<Rightarrow> real \<Rightarrow> bool" where
  "float_gt c t = (case c of None \<Rightarrow> False | Some r \<Rightarrow> t < r)"

definition strength :: "float64 \<Rightarrow> string" where
  "strength c = (if float_gt (float_abs c) 0.5 then ''Strong'' else ''Moderate'')"

definition annotation_text :: "float64 \<Rightarrow> string" where
  "annotation_text c =
     ''<b>Correlation: '' @ format_3f c @ ''</b><br>'' @ strength c @ '' positive relationship''"

definition add_annotation :: "float64 \<Rightarrow> figure \<Rightarrow> figure" where
  "add_annotation c fig =
     fig\<lparr>annotations := annotations fig @
           [\<lparr>ann_text = annotation_text c, ann_xref = ''paper'', ann_yref = ''paper'',
             ann_x = 0.02, ann_y = 0.98, ann_showarrow = False\<rparr>]\<rparr>"

text \<open>
  Steps 2 to 5 of the script: the scatter plot is built, or the run ends with the error
  of \<^verbatim>\<open>px.scatter\<close>; then the layout, the two axes and the annotation are set. \<open>chart\<close> is
  the figure these steps end with when \<^verbatim>\<open>px.scatter\<close> accepts the table.
\<close>

definition build_chart :: "corrcoef \<Rightarrow> row_cat list \<Rightarrow> error + figure" where
  "build_chart cc d =
     (case px_scatter d of
        Inl e \<Rightarrow> Inl e
      | Inr fig \<Rightarrow>
          Inr (add_annotation (correlation cc d) (update_yaxes (update_xaxes (update_layout fig)))))"

definition chart :: "corrcoef \<Rightarrow> row_cat list \<Rightarrow> figure" where
  "chart cc d =
     add_annotation (correlation cc d)
       (update_yaxes (update_xaxes (update_layout (scatter_figure d))))"

text \<open>
  What a figure shows. An axis with an explicit range shows exactly that interval and is
  not fitted to the data; an axis without one is fitted to the data by the library and
  shows every point. A point is in view when the axes show both of its coordinates, the
  attendance on the x axis and the GPA on the y axis; a point out of view is neither
  drawn nor reported.
\<close>

definition axis_shows :: "(real \<times> real) option \<Rightarrow> float64 \<Rightarrow> bool" where
  "axis_shows rng v =
     (case v of
        None \<Rightarrow> False
      | Some x \<Rightarrow> (case rng of None \<Rightarrow> True | Some (lo, hi) \<Rightarrow> lo \<le> x \<and> x \<le> hi))"

definition in_view :: "figure \<Rightarrow> row_cat \<Rightarrow> bool" where
  "in_view fig r \<longleftrightarrow>
     axis_shows (xaxis_range fig) (ATTENDANCE r) \<and> axis_shows (yaxis_range fig) (GPA r)"

section \<open>The script and its effects\<close>

text \<open>
  The world the script runs in: the files it can read and write, the directories that
  exist, the identifiers that the environment's random source will hand out, with the
  number already handed out, and the log of what the script has done so far (lines
  printed to standard output, figures opened in the viewer, files written), oldest first.

  The content of a file is kept as what it was made from: a table for the CSV; for an
  HTML export the figure and the identifier of the page element that holds it, which
  \<^verbatim>\<open>write_html\<close> draws afresh from the random source on every export; for a PNG export
  the figure with the requested width, height and scale.

  A printed line is a list of pieces: text, or the library's rendering of a
  \<^verbatim>\<open>value_counts\<close> series, kept as the series.
\<close>

datatype piece = Text string | SeriesRepr "(string \<times> nat) list"

datatype content = Csv "row list" | Html string figure | Png figure nat nat nat

datatype event =
    Print "piece list"
  | Show figure
  | WriteHtml string figure
  | WriteImage string figure nat nat nat

record world =
  fs :: "string \<rightharpoonup> content"
  dirs :: "string set"
  uuids :: "nat \<Rightarrow> string"
  uuid_count :: nat
  events :: "event list"

definition emit :: "event \<Rightarrow> world \<Rightarrow> world" where
  "emit e w = w\<lparr>events := events w @ [e]\<rparr>"

definition print :: "piece list \<Rightarrow> world \<Rightarrow> world" where
  "print ps w = emit (Print ps) w"

definition read_csv :: "string \<Rightarrow> world \<Rightarrow> error + row list" where
  "read_csv path w =
     (case fs w path of
        None \<Rightarrow> Inl (FileNotFoundError path)
      | Some (Csv rows) \<Rightarrow> Inr rows
      | Some _ \<Rightarrow> Inl (ParserError path))"

definition dirname :: "string \<Rightarrow> string" where
  "dirname path = rev (drop 1 (dropWhile (\<lambda>c. c \<noteq> CHR ''/'') (rev path)))"

definition uuid4 :: "world \<Rightarrow> string \<times> world" where
  "uuid4 w = (uuids w (uuid_count w), w\<lparr>uuid_count := Suc (uuid_count w)\<rparr>)"

text \<open>
  Both writers open their path for writing: the directory must exist, and whatever the
  path held before is replaced. \<^verbatim>\<open>write_html\<close> renders the page, drawing the identifier,
  before it opens the file.
\<close>

definition write_html :: "string \<Rightarrow> figure \<Rightarrow> world \<Rightarrow> error option \<times> world" where
  "write_html path fig w =
     (let (u, w') = uuid4 w
      in if dirname path \<in> dirs w'
         then (None, emit (WriteHtml path fig) (w'\<lparr>fs := (fs w')(path \<mapsto> Html u fig)\<rparr>))
         else (Some (FileNotFoundError path), w'))"

definition write_image :: "string \<Rightarrow> nat \<Rightarrow> nat \<Rightarrow> nat \<Rightarrow> figure \<Rightarrow> world \<Rightarrow> error + world" where
  "write_image path width height scale fig w =
     (if dirname path \<in> dirs w
      then Inr (emit (WriteImage path fig width height scale)
                  (w\<lparr>fs := (fs w)(path \<mapsto> Png fig width height scale)\<rparr>))
      else Inl (FileNotFoundError path))"

definition csv_path :: string where
  "csv_path = ''cleaned_data/master_dataset.csv''"

definition html_path :: string where
  "html_path = ''charts/chart_1_gpa_attendance.html''"

definition png_path :: string where
  "png_path = ''charts/chart_1_gpa_attendance.png''"

text \<open>Step 6: show the chart, then save it twice. An error stops the script there.\<close>

definition export :: "figure \<Rightarrow> world \<Rightarrow> error option \<times> world" where
  "export fig w0 =
     (let w1 = emit (Show fig) w0
      in case write_html html_path fig w1 of
           (Some e, w2) \<Rightarrow> (Some e, w2)
         | (None, w2) \<Rightarrow>
             (case write_image png_path 1200 700 2 fig w2 of
                Inl e \<Rightarrow> (Some e, w2)
              | Inr w3 \<Rightarrow> (None, w3)))"

text \<open>
  The lines printed after the export. The two pictographs of the source are written as
  their UTF-8 bytes, a line feed as the byte 10.
\<close>

definition check_mark :: string where
  "check_mark = [CHR 0xE2, CHR 0x9C, CHR 0x85]"

definition bar_chart :: string where
  "bar_chart = [CHR 0xF0, CHR 0x9F, CHR 0x93, CHR 0x8A]"

definition saved_lines :: "piece list list" where
  "saved_lines =
     [[Text (CHR 0x0A # check_mark @ '' Chart 1 created successfully!'')],
      [Text ''Files saved:''],
      [Text ''  - charts/chart_1_gpa_attendance.html''],
      [Text ''  - charts/chart_1_gpa_attendance.png'']]"

definition insight_1 :: "float64 \<Rightarrow> piece list list" where
  "insight_1 c =
     [[Text ''1. POSITIVE CORRELATION: Higher attendance strongly correlates with better GPA''],
      [Text (''   (r = '' @ format_3f c @ ''), suggesting attendance is a key success factor'')]]"

definition insight_2 :: "piece list list" where
  "insight_2 =
     [[Text (CHR 0x0A # ''2. NATIONALITY PATTERNS: [Analyze the plot - do certain groups cluster?'')],
      [Text ''   Look for: Do foreigners have different attendance patterns? Better/worse GPA?]'']]"

definition insight_3 :: "piece list list" where
  "insight_3 =
     [[Text (CHR 0x0A # ''3. AT-RISK IDENTIFICATION: Students with <75% attendance tend to have GPA <3.0'')],
      [Text ''   Recommendation: Flag students with low attendance for early intervention'']]"

definition insights :: "float64 \<Rightarrow> piece list list" where
  "insights c =
     [[Text (CHR 0x0A # bar_chart @ '' KEY INSIGHTS FOR POWERPOINT:'')]]
     @ insight_1 c @ insight_2 @ insight_3"

definition data_lines :: "row_cat list \<Rightarrow> piece list list" where
  "data_lines d =
     [[Text (''Chart 1 Data: '' @ str_nat (length d)
             @ '' students with complete GPA/Attendance data'')],
      [Text (''Nationality breakdown:'' @ [CHR 0x0A]),
       SeriesRepr (value_counts (map NATIONALITY_STATUS d))]]"

definition print_all :: "piece list list \<Rightarrow> world \<Rightarrow> world" where
  "print_all ls w = fold print ls w"

definition main :: "corrcoef \<Rightarrow> world \<Rightarrow> error option \<times> world" where
  "main cc w0 =
     (case read_csv csv_path w0 of
        Inl e \<Rightarrow> (Some e, w0)
      | Inr df \<Rightarrow>
          (let d = df_chart1 df;
               w1 = print_all (data_lines d) w0
           in case build_chart cc d of
                Inl e \<Rightarrow> (Some e, w1)
              | Inr fig \<Rightarrow>
                  (case export fig w1 of
                     (Some e, w2) \<Rightarrow> (Some e, w2)
                   | (None, w2) \<Rightarrow>
                       (None, print_all (saved_lines @ insights (correlation cc d)) w2))))"

text \<open>
  Reading the log: what a run added to it, the lines it printed, and the effects of the
  exporter (everything that is not a printed line).
\<close>

definition new_events :: "world \<Rightarrow> world \<Rightarrow> event list" where
  "new_events w w' = drop (length (events w)) (events w')"



section \<open>Example inputs\<close>

text \<open>
  Small tables and worlds on which the theorems below are instantiated. In \<open>sample_df\<close>
  the rows S06, S07 and S08 each miss one of the three required cells, the second row
  misses only cells that are not required (among them the study hours), and S09 and S10
  carry a GPA outside the bin edges. Every row of \<open>incomplete_df\<close> misses a required cell.
  Every row of \<open>plotted_df\<close> but the last is complete and has its study hours; its
  points lie on one rising line (the GPA is a twentieth of the attendance), P4 and P5 lie
  outside the bin edges, and P3, P4 and P5 outside the axis ranges. In
  \<open>negative_hours_df\<close> both rows are complete, N1 has a GPA above the last bin edge and N2
  has study hours below 0. The example worlds hand out the identifiers "div-0", "div-1",
  and so on. \<open>sample_cc\<close> stands for the numerical library in the examples: on the two arrays
  of \<open>plotted_df\<close> it gives 1, which is the library's result there to the three decimals
  that the script prints; no example reaches it on other arrays.
\<close>

definition mk_row ::
  "string option \<Rightarrow> string option \<Rightarrow> float64 \<Rightarrow> float64 \<Rightarrow> string option \<Rightarrow> float64 \<Rightarrow> row" where
  "mk_row sid per g a n h =
     \<lparr>STUDENT_ID = sid, PERIOD = per, GPA = g, ATTENDANCE = a,
      NATIONALITY_STATUS = n, SELF_STUDY_HRS = h\<rparr>"

definition sample_df :: "row list" where
  "sample_df =
     [mk_row (Some ''S01'') (Some ''T1'') (Some 2.0) (Some 60) (Some ''SG Citizen'') (Some 5),
      mk_row None None (Some 3.0) (Some 80) (Some ''SG PR'') None,
      mk_row (Some ''S03'') (Some ''T1'') (Some 4.0) (Some 95) (Some ''Foreigner'') (Some 12),
      mk_row (Some ''S04'') (Some ''T2'') (Some 2.5) (Some 70) (Some ''SG Citizen'') (Some 8),
      mk_row (Some ''S05'') (Some ''T2'') (Some 3.5) (Some 90) (Some ''SG Citizen'') (Some 10),
      mk_row (Some ''S06'') (Some ''T2'') None (Some 75) (Some ''SG PR'') (Some 3),
      mk_row (Some ''S07'') (Some ''T2'') (Some 3.2) (Some 85) None (Some 6),
      mk_row (Some ''S08'') (Some ''T3'') (Some 3.1) None (Some ''Foreigner'') (Some 7),
      mk_row (Some ''S09'') (Some ''T3'') (Some 0) (Some 50) (Some ''SG Citizen'') (Some 1),
      mk_row (Some ''S10'') (Some ''T3'') (Some 5.5) (Some 110) (Some ''SG PR'') (Some 20)]"

definition incomplete_df :: "row list" where
  "incomplete_df =
     [mk_row (Some ''S06'') (Some ''T2'') None (Some 75) (Some ''SG PR'') (Some 3),
      mk_row (Some ''S07'') (Some ''T2'') (Some 3.2) (Some 85) None (Some 6)]"

definition plotted_df :: "row list" where
  "plotted_df =
     [mk_row (Some ''P1'') (Some ''T1'') (Some 3.0) (Some 60) (Some ''SG Citizen'') (Some 5),
      mk_row (Some ''P2'') (Some ''T1'') (Some 4.0) (Some 80) (Some ''SG PR'') (Some 0),
      mk_row (Some ''P3'') (Some ''T2'') (Some 2.0) (Some 40) (Some ''SG Citizen'') (Some 12),
      mk_row (Some ''P4'') (Some ''T2'') (Some 0) (Some 0) (Some ''SG Citizen'') (Some 1),
      mk_row (Some ''P5'') (Some ''T3'') (Some 5.5) (Some 110) (Some ''SG PR'') (Some 20),
      mk_row (Some ''P6'') (Some ''T3'') None (Some 75) (Some ''SG PR'') (Some 3)]"

definition negative_hours_df :: "row list" where
  "negative_hours_df =
     [mk_row (Some ''N1'') (Some ''T1'') (Some 5.5) (Some 90) (Some ''SG Citizen'') (Some 4),
      mk_row (Some ''N2'') (Some ''T1'') (Some 3.0) (Some 80) (Some ''SG Citizen'') (Some (- 1))]"

definition sample_cc :: corrcoef where
  "sample_cc xs ys =
     (if xs = [3.0, 4.0, 2.0, 0, 5.5] \<and> ys = [60, 80, 40, 0, 110] then Some 1 else None)"

definition world_with :: "row list \<Rightarrow> world" where
  "world_with df =
     \<lparr>fs = [csv_path \<mapsto> Csv df], dirs = {''cleaned_data'', ''charts''},
      uuids = (\<lambda>n. ''div-'' @ str_nat n), uuid_count = 0, events = []\<rparr>"

section \<open>Properties of the table operations\<close>

lemma add_GPA_CATEGORY_fields:
  "STUDENT_ID (add_GPA_CATEGORY r) = STUDENT_ID r"
  "PERIOD (add_GPA_CATEGORY r) = PERIOD r"
  "GPA (add_GPA_CATEGORY r) = GPA r"
  "ATTENDANCE (add_GPA_CATEGORY r) = ATTENDANCE r"
  "NATIONALITY_STATUS (add_GPA_CATEGORY r) = NATIONALITY_STATUS r"
  "SELF_STUDY_HRS (add_GPA_CATEGORY r) = SELF_STUDY_HRS r"
  "GPA_CATEGORY (add_GPA_CATEGORY r) = pd_cut gpa_bins gpa_labels (GPA r)"
  "row.truncate (add_GPA_CATEGORY r) = r"
  by (simp_all add: add_GPA_CATEGORY_def row.defs row_cat.defs)

lemma isna_iff: "isna c \<longleftrightarrow> c = None"
  by (simp add: isna_def split: option.split)

lemma df_filtered_filter:
  "df_filtered df =
     filter (\<lambda>r. GPA r \<noteq> None \<and> ATTENDANCE r \<noteq> None \<and> NATIONALITY_STATUS r \<noteq> None) df"
  by (simp add: df_filtered_def dropna_def isna_iff)

lemma gpa_cut_cases:
  "pd_cut gpa_bins gpa_labels (Some g) =
     (if 0 < g \<and> g \<le> 2.5 then Some ''At Risk (<2.5)''
      else if 2.5 < g \<and> g \<le> 3.5 then Some ''Satisfactory (2.5-3.5)''
      else if 3.5 < g \<and> g \<le> 5 then Some ''Excellent (>3.5)''
      else None)"
  by (simp add: gpa_bins_def gpa_labels_def)

lemma count_notna_values: "count_list (notna_values col) v = count_list col (Some v)"
  by (induction col) (auto simp: notna_values_def split: option.splits)

lemma set_notna_values: "set (notna_values col) = {v. Some v \<in> set col}"
  by (induction col) (auto simp: notna_values_def split: option.splits)

lemma unique_props: "distinct (unique xs)" "set (unique xs) = set xs"
  by (simp_all add: unique_def)

lemma value_counts_keys: "distinct (map fst (value_counts col))"
proof -
  let ?vals = "notna_values col"
  let ?L = "map (\<lambda>v. (v, count_list ?vals v)) (unique ?vals)"
  have "map fst ?L = unique ?vals" by (simp add: comp_def)
  then have "distinct (map fst ?L)" by (simp add: unique_props)
  then have "distinct ?L \<and> inj_on fst (set ?L)" by (simp only: distinct_map)
  then have "distinct (map fst (sort_key (\<lambda>(v, n). - int n) ?L))"
    by (simp only: distinct_map distinct_sort set_sort)
  then show ?thesis by (simp add: value_counts_def Let_def)
qed

lemma set_value_counts:
  "set (value_counts col) = {(v, count_list col (Some v)) | v. Some v \<in> set col}"
  by (auto simp: value_counts_def Let_def unique_props set_notna_values count_notna_values)

lemma map_of_value_counts:
  "map_of (value_counts col) v =
     (if Some v \<in> set col then Some (count_list col (Some v)) else None)"
proof (cases "Some v \<in> set col")
  case True
  then have "(v, count_list col (Some v)) \<in> set (value_counts col)"
    by (simp add: set_value_counts)
  with value_counts_keys [of col] True show ?thesis by simp
next
  case False
  then have "v \<notin> fst ` set (value_counts col)"
    by (auto simp: set_value_counts)
  with False show ?thesis by (simp add: map_of_eq_None_iff)
qed

lemma count_list_map_filter:
  "count_list (map f xs) y = length (filter (\<lambda>x. f x = y) xs)"
  by (induction xs) auto

lemma sum_value_counts:
  "sum_list (map snd (value_counts col)) = length (notna_values col)"
proof -
  let ?vals = "notna_values col"
  let ?g = "\<lambda>v. (v, count_list ?vals v)"
  have d: "distinct (value_counts col)"
    using value_counts_keys [of col] by (simp only: distinct_map)
  have s: "set (value_counts col) = ?g ` set ?vals"
    by (simp add: value_counts_def Let_def unique_props)
  have "sum_list (map snd (value_counts col)) = sum snd (set (value_counts col))"
    using d by (rule sum_list_distinct_conv_sum_set)
  also have "\<dots> = sum (snd \<circ> ?g) (set ?vals)"
    unfolding s by (rule sum.reindex) (simp add: inj_on_def)
  also have "\<dots> = sum (count_list ?vals) (set ?vals)"
    by (simp add: comp_def)
  also have "\<dots> = length ?vals"
    by (rule sum_count_set) simp_all
  finally show ?thesis .
qed

lemma sample_filtered:
  "df_filtered sample_df =
     [mk_row (Some ''S01'') (Some ''T1'') (Some 2.0) (Some 60) (Some ''SG Citizen'') (Some 5),
      mk_row None None (Some 3.0) (Some 80) (Some ''SG PR'') None,
      mk_row (Some ''S03'') (Some ''T1'') (Some 4.0) (Some 95) (Some ''Foreigner'') (Some 12),
      mk_row (Some ''S04'') (Some ''T2'') (Some 2.5) (Some 70) (Some ''SG Citizen'') (Some 8),
      mk_row (Some ''S05'') (Some ''T2'') (Some 3.5) (Some 90) (Some ''SG Citizen'') (Some 10),
      mk_row (Some ''S09'') (Some ''T3'') (Some 0) (Some 50) (Some ''SG Citizen'') (Some 1),
      mk_row (Some ''S10'') (Some ''T3'') (Some 5.5) (Some 110) (Some ''SG PR'') (Some 20)]"
  by (simp add: df_filtered_def dropna_def isna_def sample_df_def mk_row_def)

lemma mk_row_fields:
  "STUDENT_ID (mk_row sid per g a n h) = sid"
  "PERIOD (mk_row sid per g a n h) = per"
  "GPA (mk_row sid per g a n h) = g"
  "ATTENDANCE (mk_row sid per g a n h) = a"
  "NATIONALITY_STATUS (mk_row sid per g a n h) = n"
  "SELF_STUDY_HRS (mk_row sid per g a n h) = h"
  by (simp_all add: mk_row_def)

section \<open>Claims\<close>

text \<open>
  C1. The derived column \<^verbatim>\<open>GPA_CATEGORY\<close> buckets the GPA of every filtered row along
  the edges 0, 2.5, 3.5, 5.0 into intervals open on the left and closed on the right:
  a GPA of 2.0 is "At Risk (<2.5)", 3.0 is "Satisfactory (2.5-3.5)", 4.0 is
  "Excellent (>3.5)"; the boundary 2.5 belongs to "At Risk (<2.5)" and the boundary 3.5
  to "Satisfactory (2.5-3.5)". In general the row is "At Risk" exactly when its GPA is in
  (0, 2.5], "Satisfactory" exactly when in (2.5, 3.5], "Excellent" exactly when in
  (3.5, 5.0].
\<close>

theorem gpa_category_buckets:
  "\<forall>r \<in> set (df_chart1 df).
     (GPA r = Some 2.0 \<longrightarrow> GPA_CATEGORY r = Some ''At Risk (<2.5)'') \<and>
     (GPA r = Some 3.0 \<longrightarrow> GPA_CATEGORY r = Some ''Satisfactory (2.5-3.5)'') \<and>
     (GPA r = Some 4.0 \<longrightarrow> GPA_CATEGORY r = Some ''Excellent (>3.5)'') \<and>
     (GPA r = Some 2.5 \<longrightarrow> GPA_CATEGORY r = Some ''At Risk (<2.5)'') \<and>
     (GPA r = Some 3.5 \<longrightarrow> GPA_CATEGORY r = Some ''Satisfactory (2.5-3.5)'') \<and>
     (\<forall>g. GPA r = Some g \<longrightarrow>
        (GPA_CATEGORY r = Some ''At Risk (<2.5)'' \<longleftrightarrow> 0 < g \<and> g \<le> 2.5) \<and>
        (GPA_CATEGORY r = Some ''Satisfactory (2.5-3.5)'' \<longleftrightarrow> 2.5 < g \<and> g \<le> 3.5) \<and>
        (GPA_CATEGORY r = Some ''Excellent (>3.5)'' \<longleftrightarrow> 3.5 < g \<and> g \<le> 5.0))"
proof
  fix r assume "r \<in> set (df_chart1 df)"
  then obtain r0 where r: "r = add_GPA_CATEGORY r0"
    by (auto simp: df_chart1_def)
  show "(GPA r = Some 2.0 \<longrightarrow> GPA_CATEGORY r = Some ''At Risk (<2.5)'') \<and>
     (GPA r = Some 3.0 \<longrightarrow> GPA_CATEGORY r = Some ''Satisfactory (2.5-3.5)'') \<and>
     (GPA r = Some 4.0 \<longrightarrow> GPA_CATEGORY r = Some ''Excellent (>3.5)'') \<and>
     (GPA r = Some 2.5 \<longrightarrow> GPA_CATEGORY r = Some ''At Risk (<2.5)'') \<and>
     (GPA r = Some 3.5 \<longrightarrow> GPA_CATEGORY r = Some ''Satisfactory (2.5-3.5)'') \<and>
     (\<forall>g. GPA r = Some g \<longrightarrow>
        (GPA_CATEGORY r = Some ''At Risk (<2.5)'' \<longleftrightarrow> 0 < g \<and> g \<le> 2.5) \<and>
        (GPA_CATEGORY r = Some ''Satisfactory (2.5-3.5)'' \<longleftrightarrow> 2.5 < g \<and> g \<le> 3.5) \<and>
        (GPA_CATEGORY r = Some ''Excellent (>3.5)'' \<longleftrightarrow> 3.5 < g \<and> g \<le> 5.0))"
    unfolding r add_GPA_CATEGORY_fields
    by (auto simp: gpa_cut_cases)
qed

text \<open>
  On the example table: the rows with GPA 2.0, 3.0, 4.0 and with the boundary values 2.5
  and 3.5 are filtered rows, and the theorem gives their categories.
\<close>

theorem gpa_category_buckets_witness:
  "map (\<lambda>r. (r \<in> set (df_chart1 sample_df), GPA r, GPA_CATEGORY r))
     (map add_GPA_CATEGORY
        [mk_row (Some ''S01'') (Some ''T1'') (Some 2.0) (Some 60) (Some ''SG Citizen'') (Some 5),
         mk_row None None (Some 3.0) (Some 80) (Some ''SG PR'') None,
         mk_row (Some ''S03'') (Some ''T1'') (Some 4.0) (Some 95) (Some ''Foreigner'') (Some 12),
         mk_row (Some ''S04'') (Some ''T2'') (Some 2.5) (Some 70) (Some ''SG Citizen'') (Some 8),
         mk_row (Some ''S05'') (Some ''T2'') (Some 3.5) (Some 90) (Some ''SG Citizen'') (Some 10)])
   = [(True, Some 2.0, Some ''At Risk (<2.5)''),
      (True, Some 3.0, Some ''Satisfactory (2.5-3.5)''),
      (True, Some 4.0, Some ''Excellent (>3.5)''),
      (True, Some 2.5, Some ''At Risk (<2.5)''),
      (True, Some 3.5, Some ''Satisfactory (2.5-3.5)'')]"
proof -
  let ?r1 = "add_GPA_CATEGORY
    (mk_row (Some ''S01'') (Some ''T1'') (Some 2.0) (Some 60) (Some ''SG Citizen'') (Some 5))"
  let ?r2 = "add_GPA_CATEGORY (mk_row None None (Some 3.0) (Some 80) (Some ''SG PR'') None)"
  let ?r3 = "add_GPA_CATEGORY
    (mk_row (Some ''S03'') (Some ''T1'') (Some 4.0) (Some 95) (Some ''Foreigner'') (Some 12))"
  let ?r4 = "add_GPA_CATEGORY
    (mk_row (Some ''S04'') (Some ''T2'') (Some 2.5) (Some 70) (Some ''SG Citizen'') (Some 8))"
  let ?r5 = "add_GPA_CATEGORY
    (mk_row (Some ''S05'') (Some ''T2'') (Some 3.5) (Some 90) (Some ''SG Citizen'') (Some 10))"
  have m: "?r1 \<in> set (df_chart1 sample_df)" "?r2 \<in> set (df_chart1 sample_df)"
    "?r3 \<in> set (df_chart1 sample_df)" "?r4 \<in> set (df_chart1 sample_df)"
    "?r5 \<in> set (df_chart1 sample_df)"
    by (simp_all add: df_chart1_def sample_filtered)
  have g: "GPA ?r1 = Some 2.0" "GPA ?r2 = Some 3.0" "GPA ?r3 = Some 4.0"
    "GPA ?r4 = Some 2.5" "GPA ?r5 = Some 3.5"
    by (simp_all only: add_GPA_CATEGORY_fields mk_row_fields)
  note b1 = bspec [OF gpa_category_buckets m(1)]
  note b2 = bspec [OF gpa_category_buckets m(2), THEN conjunct2]
  note b3 = bspec [OF gpa_category_buckets m(3), THEN conjunct2, THEN conjunct2]
  note b4 = bspec [OF gpa_category_buckets m(4), THEN conjunct2, THEN conjunct2, THEN conjunct2]
  note b5 = bspec [OF gpa_category_buckets m(5), THEN conjunct2, THEN conjunct2, THEN conjunct2,
      THEN conjunct2]
  have c: "GPA_CATEGORY ?r1 = Some ''At Risk (<2.5)''"
    "GPA_CATEGORY ?r2 = Some ''Satisfactory (2.5-3.5)''"
    "GPA_CATEGORY ?r3 = Some ''Excellent (>3.5)''"
    "GPA_CATEGORY ?r4 = Some ''At Risk (<2.5)''"
    "GPA_CATEGORY ?r5 = Some ''Satisfactory (2.5-3.5)''"
    by (rule b1 [THEN conjunct1, THEN mp, OF g(1)],
        rule b2 [THEN conjunct1, THEN mp, OF g(2)],
        rule b3 [THEN conjunct1, THEN mp, OF g(3)],
        rule b4 [THEN conjunct1, THEN mp, OF g(4)],
        rule b5 [THEN conjunct1, THEN mp, OF g(5)])
  show ?thesis
    by (simp only: list.map m g c)
qed

lemma df_chart1_truncate: "map row.truncate (df_chart1 df) = df_filtered df"
  by (simp add: df_chart1_def comp_def add_GPA_CATEGORY_fields)

lemma nationality_count:
  "count_list (map NATIONALITY_STATUS (df_chart1 df)) (Some s) =
     length (filter (\<lambda>r. GPA r \<noteq> None \<and> ATTENDANCE r \<noteq> None \<and> NATIONALITY_STATUS r = Some s) df)"
proof -
  have "count_list (map NATIONALITY_STATUS (df_chart1 df)) (Some s) =
          length (filter (\<lambda>r. NATIONALITY_STATUS r = Some s) (df_filtered df))"
    by (simp add: df_chart1_def comp_def add_GPA_CATEGORY_fields count_list_map_filter)
  also have "\<dots> = length (filter (\<lambda>r. GPA r \<noteq> None \<and> ATTENDANCE r \<noteq> None \<and> NATIONALITY_STATUS r = Some s) df)"
    unfolding df_filtered_filter filter_filter
    by (rule arg_cong [where f = length], rule filter_cong) auto
  finally show ?thesis .
qed

lemma nationality_notna:
  "notna_values (map NATIONALITY_STATUS (df_chart1 df)) = map (the \<circ> NATIONALITY_STATUS) (df_filtered df)"
  unfolding df_chart1_def df_filtered_filter
  by (induction df) (auto simp: notna_values_def add_GPA_CATEGORY_fields)

text \<open>
  C2. The filtered table holds exactly the input rows whose GPA, attendance and
  nationality status are all present, in their order and unchanged (dropping the derived
  column gives the input rows back), whatever their other cells hold. The nationality
  breakdown counts, for each status, the input rows with that status whose GPA and
  attendance are present; a status no such row has is absent from it, and the counts add
  up to the number of filtered rows. A row missing one of the three cells is in neither.
\<close>

theorem filtered_rows_complete:
  "df_filtered df =
     filter (\<lambda>r. GPA r \<noteq> None \<and> ATTENDANCE r \<noteq> None \<and> NATIONALITY_STATUS r \<noteq> None) df \<and>
   map row.truncate (df_chart1 df) = df_filtered df \<and>
   (\<forall>s. map_of (value_counts (map NATIONALITY_STATUS (df_chart1 df))) s =
      (let n = length (filter (\<lambda>r. GPA r \<noteq> None \<and> ATTENDANCE r \<noteq> None \<and>
                                    NATIONALITY_STATUS r = Some s) df)
       in if n = 0 then None else Some n)) \<and>
   sum_list (map snd (value_counts (map NATIONALITY_STATUS (df_chart1 df)))) = length (df_filtered df)"
proof (intro conjI allI)
  show "df_filtered df =
     filter (\<lambda>r. GPA r \<noteq> None \<and> ATTENDANCE r \<noteq> None \<and> NATIONALITY_STATUS r \<noteq> None) df"
    by (rule df_filtered_filter)
  show "map row.truncate (df_chart1 df) = df_filtered df"
    by (rule df_chart1_truncate)
  show "sum_list (map snd (value_counts (map NATIONALITY_STATUS (df_chart1 df)))) = length (df_filtered df)"
    by (simp add: sum_value_counts nationality_notna)
next
  fix s
  let ?col = "map NATIONALITY_STATUS (df_chart1 df)"
  have "Some s \<in> set ?col \<longleftrightarrow> count_list ?col (Some s) \<noteq> 0"
    by (simp add: count_list_0_iff)
  then show "map_of (value_counts ?col) s =
      (let n = length (filter (\<lambda>r. GPA r \<noteq> None \<and> ATTENDANCE r \<noteq> None \<and>
                                    NATIONALITY_STATUS r = Some s) df)
       in if n = 0 then None else Some n)"
    by (simp only: map_of_value_counts nationality_count Let_def) simp
qed

text \<open>
  On the example table the rows S06, S07 and S08 are dropped and the row without
  student id, period and study hours is kept; two filtered rows are "SG PR" (the third
  "SG PR" row, S06, has no GPA).
\<close>

theorem filtered_rows_complete_witness:
  "df_filtered sample_df =
     [mk_row (Some ''S01'') (Some ''T1'') (Some 2.0) (Some 60) (Some ''SG Citizen'') (Some 5),
      mk_row None None (Some 3.0) (Some 80) (Some ''SG PR'') None,
      mk_row (Some ''S03'') (Some ''T1'') (Some 4.0) (Some 95) (Some ''Foreigner'') (Some 12),
      mk_row (Some ''S04'') (Some ''T2'') (Some 2.5) (Some 70) (Some ''SG Citizen'') (Some 8),
      mk_row (Some ''S05'') (Some ''T2'') (Some 3.5) (Some 90) (Some ''SG Citizen'') (Some 10),
      mk_row (Some ''S09'') (Some ''T3'') (Some 0) (Some 50) (Some ''SG Citizen'') (Some 1),
      mk_row (Some ''S10'') (Some ''T3'') (Some 5.5) (Some 110) (Some ''SG PR'') (Some 20)] \<and>
   map_of (value_counts (map NATIONALITY_STATUS (df_chart1 sample_df))) ''SG PR'' = Some 2"
proof -
  note t = filtered_rows_complete [of sample_df]
  have a: "df_filtered sample_df =
     filter (\<lambda>r. GPA r \<noteq> None \<and> ATTENDANCE r \<noteq> None \<and> NATIONALITY_STATUS r \<noteq> None) sample_df"
    by (rule t [THEN conjunct1])
  have b: "map_of (value_counts (map NATIONALITY_STATUS (df_chart1 sample_df))) ''SG PR'' =
      (let n = length (filter (\<lambda>r. GPA r \<noteq> None \<and> ATTENDANCE r \<noteq> None \<and>
                                    NATIONALITY_STATUS r = Some ''SG PR'') sample_df)
       in if n = 0 then None else Some n)"
    by (rule t [THEN conjunct2, THEN conjunct2, THEN conjunct1, THEN spec])
  show ?thesis
    unfolding a b by (simp add: sample_df_def mk_row_def del: not_None_eq)
qed

section \<open>Properties of the chart\<close>

lemma chart_fields:
  "fig_data (chart cc d) = d"
  "layout_height (chart cc d) = Some 600"
  "layout_width (chart cc d) = Some 1000"
  "xaxis_range (chart cc d) = Some (45, 105)"
  "yaxis_range (chart cc d) = Some (1.5, 4.2)"
  "annotations (chart cc d) =
     [\<lparr>ann_text = annotation_text (correlation cc d), ann_xref = ''paper'', ann_yref = ''paper'',
       ann_x = 0.02, ann_y = 0.98, ann_showarrow = False\<rparr>]"
  by (simp_all add: chart_def add_annotation_def update_yaxes_def update_xaxes_def
      update_layout_def scatter_figure_def)

lemma sizes_ok_iff:
  "list_all (\<lambda>r. size_ok (SELF_STUDY_HRS r)) d \<longleftrightarrow>
     (\<forall>r \<in> set d. \<exists>h. SELF_STUDY_HRS r = Some h \<and> 0 \<le> h)"
  by (auto simp: list_all_iff size_ok_def split: option.splits)

lemma sizes_ok_chart1:
  "list_all (\<lambda>r. size_ok (SELF_STUDY_HRS r)) (df_chart1 df) \<longleftrightarrow>
     (\<forall>r \<in> set (df_filtered df). \<exists>h. SELF_STUDY_HRS r = Some h \<and> 0 \<le> h)"
  by (simp add: sizes_ok_iff df_chart1_def add_GPA_CATEGORY_fields)

lemma build_chart_cases:
  "build_chart cc d =
     (if list_all (\<lambda>r. size_ok (SELF_STUDY_HRS r)) d then Inr (chart cc d) else Inl size_error)"
  by (simp add: build_chart_def px_scatter_def chart_def)

lemma build_chart_Inr:
  assumes "build_chart cc d = Inr fig"
  shows "fig = chart cc d" and "list_all (\<lambda>r. size_ok (SELF_STUDY_HRS r)) d"
  using assms by (simp_all add: build_chart_cases split: if_splits)

lemma build_chart_empty: "build_chart cc [] = Inr (chart cc [])"
  by (simp add: build_chart_cases)

lemma plotted_filtered:
  "df_filtered plotted_df =
     [mk_row (Some ''P1'') (Some ''T1'') (Some 3.0) (Some 60) (Some ''SG Citizen'') (Some 5),
      mk_row (Some ''P2'') (Some ''T1'') (Some 4.0) (Some 80) (Some ''SG PR'') (Some 0),
      mk_row (Some ''P3'') (Some ''T2'') (Some 2.0) (Some 40) (Some ''SG Citizen'') (Some 12),
      mk_row (Some ''P4'') (Some ''T2'') (Some 0) (Some 0) (Some ''SG Citizen'') (Some 1),
      mk_row (Some ''P5'') (Some ''T3'') (Some 5.5) (Some 110) (Some ''SG PR'') (Some 20)]"
  by (simp add: df_filtered_def dropna_def isna_def plotted_df_def mk_row_def)

lemma plotted_sizes_ok: "list_all (\<lambda>r. size_ok (SELF_STUDY_HRS r)) (df_chart1 plotted_df)"
  by (simp add: sizes_ok_chart1 plotted_filtered mk_row_fields)

lemma plotted_built:
  "build_chart cc (df_chart1 plotted_df) = Inr (chart cc (df_chart1 plotted_df))"
  by (simp add: build_chart_cases plotted_sizes_ok)


lemma correlation_args:
  assumes "map Some xs = map GPA (df_filtered df)"
    and "map Some ys = map ATTENDANCE (df_filtered df)"
  shows "correlation cc (df_chart1 df) = (if xs = [] then None else cc xs ys)"
proof -
  have g: "map GPA (df_chart1 df) = map Some xs"
    and a: "map ATTENDANCE (df_chart1 df) = map Some ys"
    using assms by (simp_all add: df_chart1_def comp_def add_GPA_CATEGORY_fields)
  have l: "length xs = length ys"
    using assms by (metis length_map)
  have "valid_pairs (map Some xs) (map Some ys) = zip xs ys"
    using l by (induction xs ys rule: list_induct2) (simp_all add: valid_pairs_def)
  moreover from l have "map fst (zip xs ys) = xs" "map snd (zip xs ys) = ys"
    by simp_all
  moreover from l have "ys = [] \<longleftrightarrow> xs = []"
    by auto
  ultimately show ?thesis
    using l by (simp add: correlation_def corr_def g a Let_def)
qed

lemma plotted_correlation: "correlation sample_cc (df_chart1 plotted_df) = Some 1"
proof -
  have "correlation sample_cc (df_chart1 plotted_df)
          = sample_cc [3.0, 4.0, 2.0, 0, 5.5] [60, 80, 40, 0, 110]"
    by (subst correlation_args [where xs = "[3.0, 4.0, 2.0, 0, 5.5]"
          and ys = "[60, 80, 40, 0, 110]"])
       (simp_all add: plotted_filtered mk_row_fields)
  then show ?thesis by (simp add: sample_cc_def)
qed

lemma strength_cases:
  "strength c = (if \<exists>r. c = Some r \<and> 0.5 < \<bar>r\<bar> then ''Strong'' else ''Moderate'')"
  by (cases c) (simp_all add: strength_def float_gt_def float_abs_def)


text \<open>
  C3. For every value of the correlation, NaN included, the text of the annotation is
  the formatted coefficient followed by the word "Strong" when the absolute value
  exceeds 0.5 and by "Moderate" otherwise, followed by " positive relationship": it
  contains that label, and it contains the word "positive" whatever the sign. The only
  annotation of the chart carries this text for the correlation of the charted table, and
  so does the chart of every run in which one is built.
\<close>

theorem annotation_strength_label:
  "annotation_text c =
     ''<b>Correlation: '' @ format_3f c @ ''</b><br>''
       @ (if \<exists>r. c = Some r \<and> 0.5 < \<bar>r\<bar> then ''Strong'' else ''Moderate'')
       @ '' positive relationship'' \<and>
   sublist (if \<exists>r. c = Some r \<and> 0.5 < \<bar>r\<bar> then ''Strong'' else ''Moderate'') (annotation_text c) \<and>
   sublist ''positive'' (annotation_text c) \<and>
   map ann_text (annotations (chart cc d)) = [annotation_text (correlation cc d)] \<and>
   (\<forall>fig. build_chart cc d = Inr fig \<longrightarrow>
      map ann_text (annotations fig) = [annotation_text (correlation cc d)])"
proof (intro conjI allI impI)
  let ?l = "if \<exists>r. c = Some r \<and> 0.5 < \<bar>r\<bar> then ''Strong'' else ''Moderate''"
  show eq: "annotation_text c =
     ''<b>Correlation: '' @ format_3f c @ ''</b><br>'' @ ?l @ '' positive relationship''"
    by (simp only: annotation_text_def strength_cases)
  have "sublist ?l ((''<b>Correlation: '' @ format_3f c @ ''</b><br>'') @ ?l @ '' positive relationship'')"
    by (rule sublist_appendI)
  then show "sublist ?l (annotation_text c)"
    by (simp only: eq append_assoc)
  have "sublist ''positive''
          ((''<b>Correlation: '' @ format_3f c @ ''</b><br>'' @ ?l @ '' '') @ ''positive'' @ '' relationship'')"
    by (rule sublist_appendI)
  then show "sublist ''positive'' (annotation_text c)"
    unfolding eq by simp
  show a: "map ann_text (annotations (chart cc d)) = [annotation_text (correlation cc d)]"
    by (simp add: chart_fields)
  fix fig assume "build_chart cc d = Inr fig"
  then have "fig = chart cc d" by (rule build_chart_Inr)
  with a show "map ann_text (annotations fig) = [annotation_text (correlation cc d)]"
    by simp
qed

text \<open>
  At the negative coefficient -0.75 the text is still "Strong positive relationship"; at
  exactly 0.5 and at NaN the label is "Moderate". The chart built for the example table,
  whose points lie on a rising line, reads "Correlation: 1.000" and "Strong".
\<close>

theorem annotation_strength_label_witness:
  "annotation_text (Some (- 0.75)) = ''<b>Correlation: -0.750</b><br>Strong positive relationship'' \<and>
   annotation_text (Some 0.5) = ''<b>Correlation: 0.500</b><br>Moderate positive relationship'' \<and>
   annotation_text None = ''<b>Correlation: nan</b><br>Moderate positive relationship'' \<and>
   sublist ''Strong'' (annotation_text (Some (- 0.75))) \<and>
   sublist ''positive'' (annotation_text (Some (- 0.75))) \<and>
   build_chart sample_cc (df_chart1 plotted_df) = Inr (chart sample_cc (df_chart1 plotted_df)) \<and>
   map ann_text (annotations (chart sample_cc (df_chart1 plotted_df)))
     = [''<b>Correlation: 1.000</b><br>Strong positive relationship'']"
proof -
  have f: "format_3f (Some (- 0.75)) = ''-0.750''" "format_3f (Some 0.5) = ''0.500''"
    "format_3f None = ''nan''" "format_3f (Some 1) = ''1.000''"
    by (simp_all add: format_3f_def round_half_even_def digit_def)
  have a: "annotation_text (Some (- 0.75)) = ''<b>Correlation: -0.750</b><br>Strong positive relationship''"
    using annotation_strength_label [of "Some (- 0.75)", THEN conjunct1] f by simp
  have b: "annotation_text (Some 0.5) = ''<b>Correlation: 0.500</b><br>Moderate positive relationship''"
    using annotation_strength_label [of "Some 0.5", THEN conjunct1] f by simp
  have c: "annotation_text None = ''<b>Correlation: nan</b><br>Moderate positive relationship''"
    using annotation_strength_label [of None, THEN conjunct1] f by simp
  have s: "sublist ''Strong'' (annotation_text (Some (- 0.75)))"
    using annotation_strength_label [of "Some (- 0.75)", THEN conjunct2, THEN conjunct1] by simp
  have p: "sublist ''positive'' (annotation_text (Some (- 0.75)))"
    by (rule annotation_strength_label [THEN conjunct2, THEN conjunct2, THEN conjunct1])
  have e: "\<exists>r::real. Some 1 = Some r \<and> 0.5 < \<bar>r\<bar>"
    by (rule exI [of _ "1"]) simp
  have t: "annotation_text (Some 1) = ''<b>Correlation: 1.000</b><br>Strong positive relationship''"
    using annotation_strength_label [of "Some 1", THEN conjunct1]
    unfolding if_P [OF e] f by simp
  have d: "map ann_text (annotations (chart sample_cc (df_chart1 plotted_df)))
     = [''<b>Correlation: 1.000</b><br>Strong positive relationship'']"
    using annotation_strength_label [of _ sample_cc "df_chart1 plotted_df", THEN conjunct2,
        THEN conjunct2, THEN conjunct2, THEN conjunct2, THEN spec, THEN mp, OF plotted_built]
    by (simp only: plotted_correlation t)
  from a b c s p plotted_built d show ?thesis by (intro conjI)
qed

lemma chart1_positions:
  assumes "r \<in> set (df_chart1 df)"
  shows "\<exists>a g. ATTENDANCE r = Some a \<and> GPA r = Some g"
  using assms by (auto simp: df_chart1_def df_filtered_filter add_GPA_CATEGORY_fields)

lemma in_view_chart:
  "in_view (chart cc d) r \<longleftrightarrow>
     (\<exists>a g. ATTENDANCE r = Some a \<and> GPA r = Some g \<and>
            45 \<le> a \<and> a \<le> 105 \<and> 1.5 \<le> g \<and> g \<le> 4.2)"
  by (auto simp: in_view_def axis_shows_def chart_fields split: option.splits)

lemma in_view_scatter_figure:
  "in_view (scatter_figure d) r \<longleftrightarrow> (\<exists>a g. ATTENDANCE r = Some a \<and> GPA r = Some g)"
  by (auto simp: in_view_def axis_shows_def scatter_figure_def split: option.splits)

text \<open>
  C6. Whenever the chart is built, for whatever table, it has height 600 and width 1000,
  its attendance axis shows 45 to 105 and its GPA axis 1.5 to 4.2. It holds every filtered
  row, and the rows in view are exactly those with attendance in [45, 105] and GPA in
  [1.5, 4.2]: a row outside stays in the data and is out of view. Before the ranges are
  set every filtered row is in view, so it is the fixed ranges that cut. The cut is
  silent: whether the chart is built depends on the study hours alone, never on where a
  point lies.
\<close>

theorem chart_fixed_dimensions_and_ranges:
  "(\<forall>fig. build_chart cc (df_chart1 df) = Inr fig \<longrightarrow>
      layout_height fig = Some 600 \<and> layout_width fig = Some 1000 \<and>
      xaxis_range fig = Some (45, 105) \<and> yaxis_range fig = Some (1.5, 4.2) \<and>
      fig_data fig = df_chart1 df \<and>
      (\<forall>r \<in> set (df_chart1 df).
         in_view fig r \<longleftrightarrow>
           (\<exists>a g. ATTENDANCE r = Some a \<and> GPA r = Some g \<and>
                  45 \<le> a \<and> a \<le> 105 \<and> 1.5 \<le> g \<and> g \<le> 4.2))) \<and>
   (\<forall>r \<in> set (df_chart1 df). in_view (scatter_figure (df_chart1 df)) r) \<and>
   ((\<exists>fig. build_chart cc (df_chart1 df) = Inr fig) \<longleftrightarrow>
      (\<forall>r \<in> set (df_filtered df). \<exists>h. SELF_STUDY_HRS r = Some h \<and> 0 \<le> h))"
proof (intro conjI allI impI ballI)
  fix fig assume "build_chart cc (df_chart1 df) = Inr fig"
  then have fig: "fig = chart cc (df_chart1 df)" by (rule build_chart_Inr)
  show "layout_height fig = Some 600" "layout_width fig = Some 1000"
    "xaxis_range fig = Some (45, 105)" "yaxis_range fig = Some (1.5, 4.2)"
    "fig_data fig = df_chart1 df"
    unfolding fig by (simp_all only: chart_fields)
  fix r assume "r \<in> set (df_chart1 df)"
  show "in_view fig r \<longleftrightarrow>
           (\<exists>a g. ATTENDANCE r = Some a \<and> GPA r = Some g \<and>
                  45 \<le> a \<and> a \<le> 105 \<and> 1.5 \<le> g \<and> g \<le> 4.2)"
    unfolding fig by (rule in_view_chart)
next
  fix r assume "r \<in> set (df_chart1 df)"
  then show "in_view (scatter_figure (df_chart1 df)) r"
    by (simp only: in_view_scatter_figure chart1_positions)
next
  show "(\<exists>fig. build_chart cc (df_chart1 df) = Inr fig) \<longleftrightarrow>
      (\<forall>r \<in> set (df_filtered df). \<exists>h. SELF_STUDY_HRS r = Some h \<and> 0 \<le> h)"
    by (simp add: build_chart_cases sizes_ok_chart1)
qed

text \<open>
  On the example table, whose row P5 has attendance 110 and GPA 5.5: the chart is built
  with these dimensions and ranges, P5 is among its data and out of view, and P1 with
  attendance 60 and GPA 3.0 is in view.
\<close>

theorem chart_fixed_dimensions_and_ranges_witness:
  "build_chart sample_cc (df_chart1 plotted_df) = Inr (chart sample_cc (df_chart1 plotted_df)) \<and>
   layout_height (chart sample_cc (df_chart1 plotted_df)) = Some 600 \<and>
   layout_width (chart sample_cc (df_chart1 plotted_df)) = Some 1000 \<and>
   xaxis_range (chart sample_cc (df_chart1 plotted_df)) = Some (45, 105) \<and>
   yaxis_range (chart sample_cc (df_chart1 plotted_df)) = Some (1.5, 4.2) \<and>
   add_GPA_CATEGORY (mk_row (Some ''P5'') (Some ''T3'') (Some 5.5) (Some 110) (Some ''SG PR'') (Some 20))
     \<in> set (fig_data (chart sample_cc (df_chart1 plotted_df))) \<and>
   \<not> in_view (chart sample_cc (df_chart1 plotted_df))
       (add_GPA_CATEGORY (mk_row (Some ''P5'') (Some ''T3'') (Some 5.5) (Some 110) (Some ''SG PR'') (Some 20))) \<and>
   in_view (chart sample_cc (df_chart1 plotted_df))
       (add_GPA_CATEGORY (mk_row (Some ''P1'') (Some ''T1'') (Some 3.0) (Some 60) (Some ''SG Citizen'') (Some 5)))"
proof -
  let ?fig = "chart sample_cc (df_chart1 plotted_df)"
  let ?p5 = "add_GPA_CATEGORY
    (mk_row (Some ''P5'') (Some ''T3'') (Some 5.5) (Some 110) (Some ''SG PR'') (Some 20))"
  let ?p1 = "add_GPA_CATEGORY
    (mk_row (Some ''P1'') (Some ''T1'') (Some 3.0) (Some 60) (Some ''SG Citizen'') (Some 5))"
  note t = chart_fixed_dimensions_and_ranges [of sample_cc plotted_df, THEN conjunct1,
      THEN spec, THEN mp, OF plotted_built]
  have m5: "?p5 \<in> set (df_chart1 plotted_df)" and m1: "?p1 \<in> set (df_chart1 plotted_df)"
    by (simp_all add: df_chart1_def plotted_filtered)
  have h: "layout_height ?fig = Some 600" and w: "layout_width ?fig = Some 1000"
    and x: "xaxis_range ?fig = Some (45, 105)" and y: "yaxis_range ?fig = Some (1.5, 4.2)"
    and d: "fig_data ?fig = df_chart1 plotted_df"
    using t by blast+
  have v: "\<forall>r \<in> set (df_chart1 plotted_df).
         in_view ?fig r \<longleftrightarrow>
           (\<exists>a g. ATTENDANCE r = Some a \<and> GPA r = Some g \<and>
                  45 \<le> a \<and> a \<le> 105 \<and> 1.5 \<le> g \<and> g \<le> 4.2)"
    using t by blast
  have d5: "?p5 \<in> set (fig_data ?fig)"
    unfolding d by (rule m5)
  have v5: "\<not> in_view ?fig ?p5"
    unfolding bspec [OF v m5] by (simp add: add_GPA_CATEGORY_fields mk_row_fields)
  have v1: "in_view ?fig ?p1"
    unfolding bspec [OF v m1] by (simp add: add_GPA_CATEGORY_fields mk_row_fields)
  from plotted_built h w x y d5 v5 v1 show ?thesis by (intro conjI)
qed

lemma negative_filtered:
  "df_filtered negative_hours_df =
     [mk_row (Some ''N1'') (Some ''T1'') (Some 5.5) (Some 90) (Some ''SG Citizen'') (Some 4),
      mk_row (Some ''N2'') (Some ''T1'') (Some 3.0) (Some 80) (Some ''SG Citizen'') (Some (- 1))]"
  by (simp add: df_filtered_def dropna_def isna_def negative_hours_df_def mk_row_def)

lemma negative_sizes_bad:
  "\<not> list_all (\<lambda>r. size_ok (SELF_STUDY_HRS r)) (df_chart1 negative_hours_df)"
  by (simp add: sizes_ok_chart1 negative_filtered mk_row_fields)

text \<open>
  C10, as stated, fails: in the example table N1 has the GPA 5.5, it is a filtered row and
  its category is missing, but \<^verbatim>\<open>px.scatter\<close> refuses the table (N2 has negative study
  hours), so no chart is built and the row is in no plotted data.
\<close>

theorem plotted_data_counterexample:
  "add_GPA_CATEGORY (mk_row (Some ''N1'') (Some ''T1'') (Some 5.5) (Some 90) (Some ''SG Citizen'') (Some 4))
     \<in> set (df_chart1 negative_hours_df) \<and>
   GPA_CATEGORY (add_GPA_CATEGORY
     (mk_row (Some ''N1'') (Some ''T1'') (Some 5.5) (Some 90) (Some ''SG Citizen'') (Some 4))) = None \<and>
   px_scatter (df_chart1 negative_hours_df) = Inl size_error \<and>
   build_chart sample_cc (df_chart1 negative_hours_df) = Inl size_error"
proof -
  have m: "add_GPA_CATEGORY (mk_row (Some ''N1'') (Some ''T1'') (Some 5.5) (Some 90) (Some ''SG Citizen'') (Some 4))
     \<in> set (df_chart1 negative_hours_df)"
    by (simp add: df_chart1_def negative_filtered)
  have c: "GPA_CATEGORY (add_GPA_CATEGORY
     (mk_row (Some ''N1'') (Some ''T1'') (Some 5.5) (Some 90) (Some ''SG Citizen'') (Some 4))) = None"
    by (simp add: add_GPA_CATEGORY_fields mk_row_fields gpa_cut_cases)
  have p: "px_scatter (df_chart1 negative_hours_df) = Inl size_error"
    using negative_sizes_bad by (simp add: px_scatter_def)
  have b: "build_chart sample_cc (df_chart1 negative_hours_df) = Inl size_error"
    using negative_sizes_bad by (simp add: build_chart_cases)
  from m c p b show ?thesis by (intro conjI)
qed

text \<open>
  C10, amended. An input row with attendance and nationality status present whose GPA is
  at most 0 or above 5.0 stays in the filtered table, unchanged, and its \<^verbatim>\<open>GPA_CATEGORY\<close>
  is missing; whenever the chart is built the row is among the data of the chart.
  Conversely a filtered row has a missing category only when its GPA is at most 0 or
  above 5.0, so the three buckets cover exactly (0, 5.0].
\<close>

theorem gpa_outside_bins_uncategorised:
  "(\<forall>r \<in> set df. \<forall>g.
      GPA r = Some g \<and> (g \<le> 0 \<or> 5.0 < g) \<and> ATTENDANCE r \<noteq> None \<and> NATIONALITY_STATUS r \<noteq> None
      \<longrightarrow> add_GPA_CATEGORY r \<in> set (df_chart1 df) \<and>
          row.truncate (add_GPA_CATEGORY r) = r \<and>
          GPA_CATEGORY (add_GPA_CATEGORY r) = None \<and>
          (\<forall>fig. build_chart cc (df_chart1 df) = Inr fig \<longrightarrow>
             add_GPA_CATEGORY r \<in> set (fig_data fig))) \<and>
   (\<forall>r \<in> set (df_chart1 df). \<forall>g.
      GPA r = Some g \<longrightarrow> (GPA_CATEGORY r = None \<longleftrightarrow> g \<le> 0 \<or> 5.0 < g))"
proof (intro conjI ballI allI impI)
  fix r g
  assume r: "r \<in> set df"
    and h: "GPA r = Some g \<and> (g \<le> 0 \<or> 5.0 < g) \<and> ATTENDANCE r \<noteq> None \<and> NATIONALITY_STATUS r \<noteq> None"
  from r h have "r \<in> set (df_filtered df)"
    by (simp add: df_filtered_filter)
  then show m: "add_GPA_CATEGORY r \<in> set (df_chart1 df)"
    by (simp add: df_chart1_def)
  show "row.truncate (add_GPA_CATEGORY r) = r"
    by (rule add_GPA_CATEGORY_fields)
  from h show "GPA_CATEGORY (add_GPA_CATEGORY r) = None"
    by (auto simp: add_GPA_CATEGORY_fields gpa_cut_cases)
  fix fig assume "build_chart cc (df_chart1 df) = Inr fig"
  then have "fig = chart cc (df_chart1 df)" by (rule build_chart_Inr)
  with m show "add_GPA_CATEGORY r \<in> set (fig_data fig)"
    by (simp only: chart_fields)
next
  fix r g
  assume "r \<in> set (df_chart1 df)" and g: "GPA r = Some g"
  then obtain r0 where r: "r = add_GPA_CATEGORY r0"
    by (auto simp: df_chart1_def)
  from g show "GPA_CATEGORY r = None \<longleftrightarrow> g \<le> 0 \<or> 5.0 < g"
    unfolding r add_GPA_CATEGORY_fields by (auto simp: gpa_cut_cases)
qed

text \<open>
  On the example table: P4 with GPA exactly 0 and P5 with GPA 5.5 are kept and
  uncategorised, the chart is built and holds both; P3 with GPA 2.0 has a category.
\<close>

theorem gpa_outside_bins_uncategorised_witness:
  "add_GPA_CATEGORY (mk_row (Some ''P4'') (Some ''T2'') (Some 0) (Some 0) (Some ''SG Citizen'') (Some 1))
     \<in> set (df_chart1 plotted_df) \<and>
   GPA_CATEGORY (add_GPA_CATEGORY
     (mk_row (Some ''P4'') (Some ''T2'') (Some 0) (Some 0) (Some ''SG Citizen'') (Some 1))) = None \<and>
   build_chart sample_cc (df_chart1 plotted_df) = Inr (chart sample_cc (df_chart1 plotted_df)) \<and>
   add_GPA_CATEGORY (mk_row (Some ''P4'') (Some ''T2'') (Some 0) (Some 0) (Some ''SG Citizen'') (Some 1))
     \<in> set (fig_data (chart sample_cc (df_chart1 plotted_df))) \<and>
   add_GPA_CATEGORY (mk_row (Some ''P5'') (Some ''T3'') (Some 5.5) (Some 110) (Some ''SG PR'') (Some 20))
     \<in> set (fig_data (chart sample_cc (df_chart1 plotted_df))) \<and>
   GPA_CATEGORY (add_GPA_CATEGORY
     (mk_row (Some ''P5'') (Some ''T3'') (Some 5.5) (Some 110) (Some ''SG PR'') (Some 20))) = None \<and>
   GPA_CATEGORY (add_GPA_CATEGORY
     (mk_row (Some ''P3'') (Some ''T2'') (Some 2.0) (Some 40) (Some ''SG Citizen'') (Some 12))) \<noteq> None"
proof -
  let ?r4 = "mk_row (Some ''P4'') (Some ''T2'') (Some 0) (Some 0) (Some ''SG Citizen'') (Some 1)"
  let ?r5 = "mk_row (Some ''P5'') (Some ''T3'') (Some 5.5) (Some 110) (Some ''SG PR'') (Some 20)"
  let ?r3 = "add_GPA_CATEGORY
    (mk_row (Some ''P3'') (Some ''T2'') (Some 2.0) (Some 40) (Some ''SG Citizen'') (Some 12))"
  have m4: "?r4 \<in> set plotted_df" and m5: "?r5 \<in> set plotted_df"
    by (simp_all add: plotted_df_def)
  have h4: "GPA ?r4 = Some 0 \<and> ((0::real) \<le> 0 \<or> 5.0 < (0::real)) \<and>
            ATTENDANCE ?r4 \<noteq> None \<and> NATIONALITY_STATUS ?r4 \<noteq> None"
    by (simp add: mk_row_fields)
  have h5: "GPA ?r5 = Some 5.5 \<and> ((5.5::real) \<le> 0 \<or> 5.0 < (5.5::real)) \<and>
            ATTENDANCE ?r5 \<noteq> None \<and> NATIONALITY_STATUS ?r5 \<noteq> None"
    by (simp add: mk_row_fields)
  note t = gpa_outside_bins_uncategorised [of plotted_df sample_cc, THEN conjunct1]
  note t4 = t [THEN bspec, OF m4, THEN spec, THEN mp, OF h4]
  note t5 = t [THEN bspec, OF m5, THEN spec, THEN mp, OF h5]
  have a4: "add_GPA_CATEGORY ?r4 \<in> set (df_chart1 plotted_df)"
    and c4: "GPA_CATEGORY (add_GPA_CATEGORY ?r4) = None"
    using t4 by blast+
  have c5: "GPA_CATEGORY (add_GPA_CATEGORY ?r5) = None"
    using t5 by blast
  have p4: "add_GPA_CATEGORY ?r4 \<in> set (fig_data (chart sample_cc (df_chart1 plotted_df)))"
    by (rule t4 [THEN conjunct2, THEN conjunct2, THEN conjunct2, THEN spec, THEN mp,
          OF plotted_built])
  have p5: "add_GPA_CATEGORY ?r5 \<in> set (fig_data (chart sample_cc (df_chart1 plotted_df)))"
    by (rule t5 [THEN conjunct2, THEN conjunct2, THEN conjunct2, THEN spec, THEN mp,
          OF plotted_built])
  have m3: "?r3 \<in> set (df_chart1 plotted_df)"
    by (simp add: df_chart1_def plotted_filtered)
  have g3: "GPA ?r3 = Some 2.0"
    by (simp only: add_GPA_CATEGORY_fields mk_row_fields)
  note u = gpa_outside_bins_uncategorised [of plotted_df sample_cc, THEN conjunct2, THEN bspec,
      OF m3, THEN spec, THEN mp, OF g3]
  have c3: "GPA_CATEGORY ?r3 \<noteq> None"
    unfolding u by simp
  from a4 c4 plotted_built p4 p5 c5 c3 show ?thesis by (intro conjI)
qed

section \<open>Properties of a run\<close>

text \<open>
  What \<open>main\<close> returns in each of its four cases: the table cannot be read; the table is
  read and \<^verbatim>\<open>px.scatter\<close> refuses it; the chart is built and the output directory is
  missing; the chart is built and the output directory exists.
\<close>

lemma dirname_paths: "dirname html_path = ''charts''" "dirname png_path = ''charts''"
  by (simp_all add: dirname_def html_path_def png_path_def)

lemma paths_distinct:
  "csv_path \<noteq> html_path" "csv_path \<noteq> png_path" "html_path \<noteq> png_path"
  by (simp_all add: csv_path_def html_path_def png_path_def)

lemma print_all_events: "print_all ls w = w\<lparr>events := events w @ map Print ls\<rparr>"
  unfolding print_all_def
  by (induction ls arbitrary: w) (simp_all add: print_def emit_def)

lemma export_ok:
  assumes "''charts'' \<in> dirs w"
  shows "export fig w =
     (None, w\<lparr>fs := (fs w)(html_path \<mapsto> Html (uuids w (uuid_count w)) fig,
                            png_path \<mapsto> Png fig 1200 700 2),
              uuid_count := Suc (uuid_count w),
              events := events w @ [Show fig, WriteHtml html_path fig,
                                    WriteImage png_path fig 1200 700 2]\<rparr>)"
  using assms
  by (simp add: export_def write_html_def write_image_def uuid4_def emit_def dirname_paths
      Let_def)

lemma export_no_dir:
  assumes "''charts'' \<notin> dirs w"
  shows "export fig w =
     (Some (FileNotFoundError html_path),
      w\<lparr>uuid_count := Suc (uuid_count w), events := events w @ [Show fig]\<rparr>)"
  using assms
  by (simp add: export_def write_html_def uuid4_def emit_def dirname_paths Let_def)

lemma main_no_table:
  assumes "read_csv csv_path w = Inl e"
  shows "main cc w = (Some e, w)"
  using assms by (simp add: main_def)

lemma main_no_chart:
  assumes "read_csv csv_path w = Inr df"
    and "\<not> list_all (\<lambda>r. size_ok (SELF_STUDY_HRS r)) (df_chart1 df)"
  shows "main cc w =
     (Some size_error, w\<lparr>events := events w @ map Print (data_lines (df_chart1 df))\<rparr>)"
  using assms
  by (simp add: main_def Let_def print_all_events build_chart_cases)

lemma main_no_dir:
  assumes "read_csv csv_path w = Inr df"
    and "list_all (\<lambda>r. size_ok (SELF_STUDY_HRS r)) (df_chart1 df)"
    and "''charts'' \<notin> dirs w"
  shows "main cc w =
     (Some (FileNotFoundError html_path),
      w\<lparr>uuid_count := Suc (uuid_count w),
        events := events w @ map Print (data_lines (df_chart1 df))
                  @ [Show (chart cc (df_chart1 df))]\<rparr>)"
  using assms
  by (simp add: main_def Let_def print_all_events build_chart_cases export_no_dir)

lemma main_ok:
  assumes "read_csv csv_path w = Inr df"
    and "list_all (\<lambda>r. size_ok (SELF_STUDY_HRS r)) (df_chart1 df)"
    and "''charts'' \<in> dirs w"
  shows "main cc w =
     (None,
      w\<lparr>fs := (fs w)(html_path \<mapsto> Html (uuids w (uuid_count w)) (chart cc (df_chart1 df)),
                      png_path \<mapsto> Png (chart cc (df_chart1 df)) 1200 700 2),
        uuid_count := Suc (uuid_count w),
        events := events w @ map Print (data_lines (df_chart1 df))
                  @ [Show (chart cc (df_chart1 df)),
                     WriteHtml html_path (chart cc (df_chart1 df)),
                     WriteImage png_path (chart cc (df_chart1 df)) 1200 700 2]
                  @ map Print (saved_lines @ insights (correlation cc (df_chart1 df)))\<rparr>)"
  using assms
  by (simp add: main_def Let_def print_all_events build_chart_cases export_ok)

lemma main_done_iff:
  assumes "read_csv csv_path w = Inr df"
  shows "fst (main cc w) = None \<longleftrightarrow>
     ''charts'' \<in> dirs w \<and> list_all (\<lambda>r. size_ok (SELF_STUDY_HRS r)) (df_chart1 df)"
proof (cases "list_all (\<lambda>r. size_ok (SELF_STUDY_HRS r)) (df_chart1 df)")
  case False
  then show ?thesis by (simp add: main_no_chart [OF assms])
next
  case True
  show ?thesis
  proof (cases "''charts'' \<in> dirs w")
    case c: True
    show ?thesis by (simp add: main_ok [OF assms True c] True c)
  next
    case c: False
    show ?thesis by (simp add: main_no_dir [OF assms True c] c)
  qed
qed

lemma main_done_cases:
  assumes "fst (main cc w) = None"
  obtains df where "read_csv csv_path w = Inr df"
    and "list_all (\<lambda>r. size_ok (SELF_STUDY_HRS r)) (df_chart1 df)"
    and "''charts'' \<in> dirs w"
proof (cases "read_csv csv_path w")
  case (Inl e)
  with assms show ?thesis by (simp add: main_no_table)
next
  case (Inr df)
  with assms that show ?thesis by (simp add: main_done_iff)
qed




lemma new_events_same: "new_events w w = []"
  by (simp add: new_events_def)

lemma world_with_read: "read_csv csv_path (world_with df) = Inr df"
  by (simp add: read_csv_def world_with_def)

lemma world_with_dirs: "''charts'' \<in> dirs (world_with df)"
  by (simp add: world_with_def)

lemma no_charts_read: "read_csv csv_path ((world_with df)\<lparr>dirs := {''cleaned_data''}\<rparr>) = Inr df"
  by (simp add: read_csv_def world_with_def)

lemma no_charts_dirs: "''charts'' \<notin> dirs ((world_with df)\<lparr>dirs := {''cleaned_data''}\<rparr>)"
  by simp

lemma correlation_empty:
  assumes "df_filtered df = []"
  shows "correlation cc (df_chart1 df) = None"
  using assms by (simp add: correlation_def df_chart1_def corr_def valid_pairs_def)

lemma annotation_text_nan:
  "annotation_text None = ''<b>Correlation: nan</b><br>Moderate positive relationship''"
  by (simp add: annotation_text_def format_3f_def strength_def float_gt_def float_abs_def)

lemma incomplete_filtered: "df_filtered incomplete_df = []"
  by (simp add: df_filtered_def dropna_def isna_def incomplete_df_def mk_row_def)

lemma empty_sizes_ok:
  assumes "df_filtered df = []"
  shows "list_all (\<lambda>r. size_ok (SELF_STUDY_HRS r)) (df_chart1 df)"
  using assms by (simp add: df_chart1_def)

text \<open>
  C5, as stated, fails: on a table in which every row misses a required cell the filtered
  table is empty, the correlation is NaN, and the run completes without any error.
\<close>

theorem empty_filtered_failure_counterexample:
  "df_filtered incomplete_df = [] \<and>
   correlation sample_cc (df_chart1 incomplete_df) = None \<and>
   fst (main sample_cc (world_with incomplete_df)) = None"
  by (simp add: incomplete_filtered correlation_empty
      main_ok [OF world_with_read empty_sizes_ok [OF incomplete_filtered] world_with_dirs])

text \<open>
  C5, amended. If the table is empty after filtering the correlation is undefined: it is
  NaN, not a number and not a failure. The script goes on: the chart is built, the
  annotation reads "Correlation: nan" with the label "Moderate", and the run completes
  whenever the output directory exists; the only error it can still meet is the missing
  output directory.
\<close>

theorem empty_filtered_correlation_nan:
  "read_csv csv_path w = Inr df \<and> df_filtered df = [] \<longrightarrow>
     correlation cc (df_chart1 df) = None \<and>
     map ann_text (annotations (chart cc (df_chart1 df)))
       = [''<b>Correlation: nan</b><br>Moderate positive relationship''] \<and>
     (''charts'' \<in> dirs w \<longrightarrow> fst (main cc w) = None) \<and>
     (''charts'' \<notin> dirs w \<longrightarrow> fst (main cc w) = Some (FileNotFoundError html_path)) \<and>
     build_chart cc (df_chart1 df) = Inr (chart cc (df_chart1 df))"
proof (intro impI conjI)
  assume h: "read_csv csv_path w = Inr df \<and> df_filtered df = []"
  then have r: "read_csv csv_path w = Inr df" and e: "df_filtered df = []" by simp_all
  note s = empty_sizes_ok [OF e]
  show c: "correlation cc (df_chart1 df) = None"
    by (rule correlation_empty [OF e])
  show "map ann_text (annotations (chart cc (df_chart1 df)))
       = [''<b>Correlation: nan</b><br>Moderate positive relationship'']"
    by (simp add: chart_fields c annotation_text_nan)
  show "fst (main cc w) = None" if "''charts'' \<in> dirs w"
    by (simp add: main_ok [OF r s that])
  show "fst (main cc w) = Some (FileNotFoundError html_path)" if "''charts'' \<notin> dirs w"
    by (simp add: main_no_dir [OF r s that])
  show "build_chart cc (df_chart1 df) = Inr (chart cc (df_chart1 df))"
    by (simp add: build_chart_cases s)
qed

text \<open>
  On the world whose table has only incomplete rows: NaN, the "Moderate" annotation, and
  a completed run; without the directory \<^verbatim>\<open>charts\<close> the run fails at the HTML export.
\<close>

theorem empty_filtered_correlation_nan_witness:
  "read_csv csv_path (world_with incomplete_df) = Inr incomplete_df \<and>
   df_filtered incomplete_df = [] \<and>
   ''charts'' \<in> dirs (world_with incomplete_df) \<and>
   correlation sample_cc (df_chart1 incomplete_df) = None \<and>
   map ann_text (annotations (chart sample_cc (df_chart1 incomplete_df)))
     = [''<b>Correlation: nan</b><br>Moderate positive relationship''] \<and>
   fst (main sample_cc (world_with incomplete_df)) = None \<and>
   fst (main sample_cc ((world_with incomplete_df)\<lparr>dirs := {''cleaned_data''}\<rparr>))
     = Some (FileNotFoundError html_path)"
proof -
  note t = empty_filtered_correlation_nan [of "world_with incomplete_df" incomplete_df sample_cc,
      THEN mp, OF conjI [OF world_with_read incomplete_filtered]]
  have a: "correlation sample_cc (df_chart1 incomplete_df) = None"
    by (rule t [THEN conjunct1])
  have b: "map ann_text (annotations (chart sample_cc (df_chart1 incomplete_df)))
     = [''<b>Correlation: nan</b><br>Moderate positive relationship'']"
    by (rule t [THEN conjunct2, THEN conjunct1])
  have c: "fst (main sample_cc (world_with incomplete_df)) = None"
    by (rule t [THEN conjunct2, THEN conjunct2, THEN conjunct1, THEN mp, OF world_with_dirs])
  have d: "fst (main sample_cc ((world_with incomplete_df)\<lparr>dirs := {''cleaned_data''}\<rparr>))
     = Some (FileNotFoundError html_path)"
    by (rule empty_filtered_correlation_nan
          [of "(world_with incomplete_df)\<lparr>dirs := {''cleaned_data''}\<rparr>" incomplete_df sample_cc,
           THEN mp, OF conjI [OF no_charts_read incomplete_filtered],
           THEN conjunct2, THEN conjunct2, THEN conjunct2, THEN conjunct1, THEN mp,
           OF no_charts_dirs])
  from world_with_read incomplete_filtered world_with_dirs a b c d show ?thesis
    by (intro conjI)
qed

lemma main_ok_again:
  assumes r: "read_csv csv_path w = Inr df"
    and s: "list_all (\<lambda>r. size_ok (SELF_STUDY_HRS r)) (df_chart1 df)"
    and c: "''charts'' \<in> dirs w"
  shows "fst (main cc (snd (main cc w))) = None"
    and "fs (snd (main cc (snd (main cc w)))) =
           (fs w)(html_path \<mapsto> Html (uuids w (Suc (uuid_count w))) (chart cc (df_chart1 df)),
                  png_path \<mapsto> Png (chart cc (df_chart1 df)) 1200 700 2)"
proof -
  let ?w1 = "snd (main cc w)"
  have r1: "read_csv csv_path ?w1 = Inr df"
    using r by (simp add: read_csv_def main_ok [OF r s c] paths_distinct)
  have c1: "''charts'' \<in> dirs ?w1"
    using c by (simp add: main_ok [OF r s c])
  show "fst (main cc ?w1) = None"
    by (simp add: main_ok [OF r1 s c1])
  show "fs (snd (main cc ?w1)) =
           (fs w)(html_path \<mapsto> Html (uuids w (Suc (uuid_count w))) (chart cc (df_chart1 df)),
                  png_path \<mapsto> Png (chart cc (df_chart1 df)) 1200 700 2)"
    by (simp add: main_ok [OF r1 s c1]) (simp add: main_ok [OF r s c] paths_distinct fun_upd_twist)
qed

lemma read_csv_other_paths:
  "read_csv csv_path (w\<lparr>fs := (fs w)(html_path := h, png_path := p)\<rparr>) = read_csv csv_path w"
  by (simp add: read_csv_def paths_distinct)

lemma html_update_eq:
  "f(html_path \<mapsto> Html u fig, png_path \<mapsto> q) = f(html_path \<mapsto> Html v fig, png_path \<mapsto> q)
     \<longleftrightarrow> u = v"
proof
  assume "f(html_path \<mapsto> Html u fig, png_path \<mapsto> q) = f(html_path \<mapsto> Html v fig, png_path \<mapsto> q)"
  then have "(f(html_path \<mapsto> Html u fig, png_path \<mapsto> q)) html_path
           = (f(html_path \<mapsto> Html v fig, png_path \<mapsto> q)) html_path"
    by simp
  then show "u = v" by (simp add: paths_distinct)
qed simp

lemma world_with_uuids:
  "uuids (world_with df) 0 = ''div-0''" "uuids (world_with df) (Suc 0) = ''div-1''"
  "uuid_count (world_with df) = 0"
  by (simp_all add: world_with_def digit_def)

text \<open>
  C7, as stated, fails: two runs on the same table both complete, and the files they
  leave differ, because the second HTML export carries another element identifier than
  the first.
\<close>

theorem identical_output_files_counterexample:
  "fst (main sample_cc (world_with plotted_df)) = None \<and>
   fst (main sample_cc (snd (main sample_cc (world_with plotted_df)))) = None \<and>
   fs (snd (main sample_cc (snd (main sample_cc (world_with plotted_df)))))
     \<noteq> fs (snd (main sample_cc (world_with plotted_df)))"
proof -
  note r = world_with_read [of plotted_df] and s = plotted_sizes_ok and c = world_with_dirs [of plotted_df]
  have "(''div-1'' :: string) \<noteq> ''div-0''" by simp
  then show ?thesis
    by (simp add: main_ok_again [OF r s c] html_update_eq world_with_uuids)
       (simp add: main_ok [OF r s c] html_update_eq world_with_uuids)
qed

text \<open>
  C7, amended. When a run completes, each of the two output paths holds the export of the
  chart of this table and nothing else, whatever the paths held before: nothing is
  checked or retried, and the old content is replaced, not extended. Running the script
  again on the world it left completes too; the PNG path holds the same export as before
  and every other file is as it was; the HTML path again holds the export of the same
  chart, under the next element identifier of the random source, so the two HTML files
  are the same exactly when the two identifiers are.
\<close>

theorem export_overwrites:
  "fst (main cc w) = None \<longrightarrow>
     (case read_csv csv_path w of
        Inl e \<Rightarrow> False
      | Inr df \<Rightarrow>
          (let fig = chart cc (df_chart1 df);
               w1 = snd (main cc w);
               w2 = snd (main cc w1)
           in fs w1 = (fs w)(html_path \<mapsto> Html (uuids w (uuid_count w)) fig,
                             png_path \<mapsto> Png fig 1200 700 2) \<and>
              fst (main cc w1) = None \<and>
              fs w2 = (fs w1)(html_path \<mapsto> Html (uuids w (Suc (uuid_count w))) fig) \<and>
              fs w2 png_path = fs w1 png_path \<and>
              (fs w2 = fs w1 \<longleftrightarrow> uuids w (Suc (uuid_count w)) = uuids w (uuid_count w)) \<and>
              (\<forall>h p. fst (main cc (w\<lparr>fs := (fs w)(html_path := h, png_path := p)\<rparr>)) = None \<and>
                     fs (snd (main cc (w\<lparr>fs := (fs w)(html_path := h, png_path := p)\<rparr>)))
                       = fs w1)))"
proof
  assume "fst (main cc w) = None"
  then obtain df where r: "read_csv csv_path w = Inr df"
    and s: "list_all (\<lambda>r. size_ok (SELF_STUDY_HRS r)) (df_chart1 df)"
    and c: "''charts'' \<in> dirs w"
    by (rule main_done_cases)
  let ?fig = "chart cc (df_chart1 df)"
  let ?w1 = "snd (main cc w)"
  let ?w2 = "snd (main cc ?w1)"
  have f1: "fs ?w1 = (fs w)(html_path \<mapsto> Html (uuids w (uuid_count w)) ?fig,
                             png_path \<mapsto> Png ?fig 1200 700 2)"
    by (simp add: main_ok [OF r s c])
  have ok2: "fst (main cc ?w1) = None"
    by (rule main_ok_again [OF r s c])
  have f2: "fs ?w2 = (fs w)(html_path \<mapsto> Html (uuids w (Suc (uuid_count w))) ?fig,
                            png_path \<mapsto> Png ?fig 1200 700 2)"
    by (rule main_ok_again [OF r s c])
  have f2': "fs ?w2 = (fs ?w1)(html_path \<mapsto> Html (uuids w (Suc (uuid_count w))) ?fig)"
    unfolding f1 f2 by (rule ext) (simp add: paths_distinct)
  have png: "fs ?w2 png_path = fs ?w1 png_path"
    unfolding f1 f2 by simp
  have same: "fs ?w2 = fs ?w1 \<longleftrightarrow> uuids w (Suc (uuid_count w)) = uuids w (uuid_count w)"
    unfolding f1 f2 by (rule html_update_eq)
  have prior: "fst (main cc (w\<lparr>fs := (fs w)(html_path := h, png_path := p)\<rparr>)) = None \<and>
            fs (snd (main cc (w\<lparr>fs := (fs w)(html_path := h, png_path := p)\<rparr>))) = fs ?w1" for h p
  proof -
    let ?v = "w\<lparr>fs := (fs w)(html_path := h, png_path := p)\<rparr>"
    have rv: "read_csv csv_path ?v = Inr df"
      using r by (simp only: read_csv_other_paths)
    have cv: "''charts'' \<in> dirs ?v"
      using c by simp
    show ?thesis
      by (simp add: main_ok [OF rv s cv] f1 paths_distinct fun_upd_twist)
  qed
  show "case read_csv csv_path w of
        Inl e \<Rightarrow> False
      | Inr df \<Rightarrow>
          (let fig = chart cc (df_chart1 df);
               w1 = snd (main cc w);
               w2 = snd (main cc w1)
           in fs w1 = (fs w)(html_path \<mapsto> Html (uuids w (uuid_count w)) fig,
                             png_path \<mapsto> Png fig 1200 700 2) \<and>
              fst (main cc w1) = None \<and>
              fs w2 = (fs w1)(html_path \<mapsto> Html (uuids w (Suc (uuid_count w))) fig) \<and>
              fs w2 png_path = fs w1 png_path \<and>
              (fs w2 = fs w1 \<longleftrightarrow> uuids w (Suc (uuid_count w)) = uuids w (uuid_count w)) \<and>
              (\<forall>h p. fst (main cc (w\<lparr>fs := (fs w)(html_path := h, png_path := p)\<rparr>)) = None \<and>
                     fs (snd (main cc (w\<lparr>fs := (fs w)(html_path := h, png_path := p)\<rparr>)))
                       = fs w1))"
    unfolding r sum.case Let_def
    using f1 ok2 f2' png same prior by (intro conjI allI) blast+
qed

text \<open>
  On the example world: the first run leaves the HTML export under "div-0" and the PNG; the
  second run completes, leaves the same PNG export and the HTML export of the same chart
  under "div-1"; starting from a world whose HTML path already holds something else gives the
  files of the first run.
\<close>

theorem export_overwrites_witness:
  "fst (main sample_cc (world_with plotted_df)) = None \<and>
   fs (snd (main sample_cc (world_with plotted_df))) html_path
     = Some (Html ''div-0'' (chart sample_cc (df_chart1 plotted_df))) \<and>
   fs (snd (main sample_cc (world_with plotted_df))) png_path
     = Some (Png (chart sample_cc (df_chart1 plotted_df)) 1200 700 2) \<and>
   fst (main sample_cc (snd (main sample_cc (world_with plotted_df)))) = None \<and>
   fs (snd (main sample_cc (snd (main sample_cc (world_with plotted_df))))) html_path
     = Some (Html ''div-1'' (chart sample_cc (df_chart1 plotted_df))) \<and>
   fs (snd (main sample_cc (snd (main sample_cc (world_with plotted_df))))) png_path
     = fs (snd (main sample_cc (world_with plotted_df))) png_path \<and>
   fs (snd (main sample_cc ((world_with plotted_df)
         \<lparr>fs := (fs (world_with plotted_df))(html_path := Some (Csv []), png_path := None)\<rparr>)))
     = fs (snd (main sample_cc (world_with plotted_df)))"
proof -
  let ?w = "world_with plotted_df"
  let ?fig = "chart sample_cc (df_chart1 plotted_df)"
  let ?w1 = "snd (main sample_cc ?w)"
  let ?w2 = "snd (main sample_cc ?w1)"
  have ok: "fst (main sample_cc ?w) = None"
    by (simp add: main_ok [OF world_with_read plotted_sizes_ok world_with_dirs])
  note t = export_overwrites [of sample_cc ?w, THEN mp, OF ok, unfolded world_with_read sum.case Let_def]
  have f1: "fs ?w1 = (fs ?w)(html_path \<mapsto> Html (uuids ?w (uuid_count ?w)) ?fig,
                             png_path \<mapsto> Png ?fig 1200 700 2)"
    by (rule t [THEN conjunct1])
  have ok2: "fst (main sample_cc ?w1) = None"
    by (rule t [THEN conjunct2, THEN conjunct1])
  have f2: "fs ?w2 = (fs ?w1)(html_path \<mapsto> Html (uuids ?w (Suc (uuid_count ?w))) ?fig)"
    by (rule t [THEN conjunct2, THEN conjunct2, THEN conjunct1])
  have png: "fs ?w2 png_path = fs ?w1 png_path"
    by (rule t [THEN conjunct2, THEN conjunct2, THEN conjunct2, THEN conjunct1])
  have prior: "fs (snd (main sample_cc (?w\<lparr>fs := (fs ?w)(html_path := Some (Csv []), png_path := None)\<rparr>)))
     = fs ?w1"
    by (rule t [THEN conjunct2, THEN conjunct2, THEN conjunct2, THEN conjunct2, THEN conjunct2,
          THEN spec, THEN spec, THEN conjunct2])
  have h1: "fs ?w1 html_path = Some (Html ''div-0'' ?fig)"
    unfolding f1 by (simp add: paths_distinct world_with_uuids)
  have p1: "fs ?w1 png_path = Some (Png ?fig 1200 700 2)"
    unfolding f1 by simp
  have h2: "fs ?w2 html_path = Some (Html ''div-1'' ?fig)"
    unfolding f2 by (simp add: world_with_uuids)
  from ok h1 p1 ok2 h2 png prior show ?thesis by (intro conjI)
qed













end
